theory Spec2Isabelle
  imports Complex_Main
begin

section \<open>Python values, exceptions and string operations\<close>

text \<open>
  The two modules of the repository are Python: \<^verbatim>\<open>aw_nas/hardware/compiler/dpu.py\<close>
  (the DPU compiler) and \<^verbatim>\<open>examples/research/bbssp/ssp_plugin/ssp_plugin.py\<close> (the
  plugin). A raised exception is a value of \<open>error\<close>; a function that can raise returns
  \<open>error + 'a\<close>, and one that also has effects returns that result paired with the world
  it leaves behind (effects done before a raise stay done, as in Python).
\<close>

datatype error =
    ConfigException string
  | CalledProcessError string
  | FileNotFoundError string
  | RuntimeError string
  | ValueError string
  | TypeError string
  | KeyError string
  | IndexError
  | AttributeError string
  | ZeroDivisionError
  | AssertionError

text \<open>\<^verbatim>\<open>str(i)\<close> for a Python integer: decimal digits, with a minus sign.\<close>

definition digit_char :: "nat \<Rightarrow> char" where
  "digit_char n = ''0123456789'' ! n"

fun nat_digits :: "nat \<Rightarrow> string" where
  "nat_digits n =
     (if n < 10 then [digit_char n] else nat_digits (n div 10) @ [digit_char (n mod 10)])"

declare nat_digits.simps [simp del]

definition py_str_int :: "int \<Rightarrow> string" where
  "py_str_int i = (if i < 0 then CHR ''-'' # nat_digits (nat (- i)) else nat_digits (nat i))"

text \<open>
  \<^verbatim>\<open>s.replace(old, new)\<close>: every occurrence, found left to right without overlap. With
  an empty \<open>old\<close> Python puts \<open>new\<close> before every character and at the end.
\<close>

function py_replace :: "string \<Rightarrow> string \<Rightarrow> string \<Rightarrow> string" where
  "py_replace old new [] = (if old = [] then new else [])"
| "py_replace old new (c # cs) =
     (if old = [] then new @ c # py_replace old new cs
      else if take (length old) (c # cs) = old
        then new @ py_replace old new (drop (length old) (c # cs))
      else c # py_replace old new cs)"
  by pat_completeness auto
termination
  by (relation "measure (\<lambda>(old, new, s). length s)") auto

text \<open>
  \<^verbatim>\<open>template.format(*args, **kw)\<close> for the replacement fields this code uses: \<^verbatim>\<open>{}\<close>
  takes the next positional argument and \<^verbatim>\<open>{name}\<close> the keyword argument of that name;
  \<^verbatim>\<open>{{\<close> and \<^verbatim>\<open>}}\<close> are literal braces. The arguments are given already
  converted by \<^verbatim>\<open>str\<close>. Numbered fields, conversions and format specifications do not
  occur in the two modules and are not modelled.
\<close>

definition prepend :: "string \<Rightarrow> error + string \<Rightarrow> error + string" where
  "prepend s r = (case r of Inl e \<Rightarrow> Inl e | Inr t \<Rightarrow> Inr (s @ t))"

function py_format :: "string \<Rightarrow> string list \<Rightarrow> (string \<times> string) list \<Rightarrow> error + string" where
  "py_format [] args kw = Inr []"
| "py_format (c # cs) args kw =
     (if c = CHR ''{'' then
        (if cs \<noteq> [] \<and> hd cs = CHR ''{'' then prepend ''{'' (py_format (tl cs) args kw)
         else if CHR ''}'' \<notin> set cs then Inl (ValueError ''expected } before end of string'')
         else
           (let field = takeWhile (\<lambda>x. x \<noteq> CHR ''}'') cs;
                rest = tl (dropWhile (\<lambda>x. x \<noteq> CHR ''}'') cs)
            in if field = [] then
                 (case args of
                    [] \<Rightarrow> Inl IndexError
                  | a # args' \<Rightarrow> prepend a (py_format rest args' kw))
               else
                 (case map_of kw field of
                    None \<Rightarrow> Inl (KeyError field)
                  | Some v \<Rightarrow> prepend v (py_format rest args kw))))
      else if c = CHR ''}'' then
        (if cs \<noteq> [] \<and> hd cs = CHR ''}'' then prepend ''}'' (py_format (tl cs) args kw)
         else Inl (ValueError ''Single } encountered in format string''))
      else prepend [c] (py_format cs args kw))"
  by pat_completeness auto
termination
proof (relation "measure (\<lambda>(t, args, kw). length t)")
  show "wf (measure (\<lambda>(t, args, kw). length t))"
    by simp
next
  fix c :: char and cs :: string and args :: "string list" and kw :: "(string \<times> string) list"
  assume "cs \<noteq> [] \<and> hd cs = CHR ''{''"
  then show "((tl cs, args, kw), c # cs, args, kw) \<in> measure (\<lambda>(t, args, kw). length t)"
    by simp
next
  fix c :: char and cs :: string and args :: "string list" and kw :: "(string \<times> string) list"
    and field rest :: string and a :: string and args' :: "string list"
  assume "rest = tl (dropWhile (\<lambda>x. x \<noteq> CHR ''}'') cs)"
  then have "length rest \<le> length cs"
    using length_dropWhile_le [of "\<lambda>x. x \<noteq> CHR ''}''" cs] by simp
  then show "((rest, args', kw), c # cs, args, kw) \<in> measure (\<lambda>(t, args, kw). length t)"
    by simp
next
  fix c :: char and cs :: string and args :: "string list" and kw :: "(string \<times> string) list"
    and field rest :: string
  assume "rest = tl (dropWhile (\<lambda>x. x \<noteq> CHR ''}'') cs)"
  then have "length rest \<le> length cs"
    using length_dropWhile_le [of "\<lambda>x. x \<noteq> CHR ''}''" cs] by simp
  then show "((rest, args, kw), c # cs, args, kw) \<in> measure (\<lambda>(t, args, kw). length t)"
    by simp
next
  fix c :: char and cs :: string and args :: "string list" and kw :: "(string \<times> string) list"
  assume "cs \<noteq> [] \<and> hd cs = CHR ''}''"
  then show "((tl cs, args, kw), c # cs, args, kw) \<in> measure (\<lambda>(t, args, kw). length t)"
    by simp
next
  fix c :: char and cs :: string and args :: "string list" and kw :: "(string \<times> string) list"
  show "((cs, args, kw), c # cs, args, kw) \<in> measure (\<lambda>(t, args, kw). length t)"
    by simp
qed

text \<open>\<^verbatim>\<open>os.path.join(a, b)\<close> of \<^verbatim>\<open>posixpath\<close>, for two components.\<close>

definition os_path_join :: "string \<Rightarrow> string \<Rightarrow> string" where
  "os_path_join a b =
     (if b \<noteq> [] \<and> hd b = CHR ''/'' then b
      else if a = [] \<or> last a = CHR ''/'' then a @ b
      else a @ ''/'' @ b)"

section \<open>The DPU compiler (dpu.py)\<close>

definition CAFFE_DATA_LAYER_STR :: string where
  \<open>CAFFE_DATA_LAYER_STR =
     ''\<newline>'' @
     ''layer {\<newline>'' @
     ''  name: "data"\<newline>'' @
     ''  type: "ImageData"\<newline>'' @
     ''  top: "data"\<newline>'' @
     ''  top: "label"\<newline>'' @
     ''  transform_param {\<newline>'' @
     ''    crop_size: INPUT_SIZE\<newline>'' @
     ''    mean_value: 103.53\<newline>'' @
     ''    mean_value: 116.28\<newline>'' @
     ''    mean_value: 123.675\<newline>'' @
     ''    use_standard_std: true\<newline>'' @
     ''  }\<newline>'' @
     ''  image_data_param {\<newline>'' @
     ''    source: "/datasets/imgNet/imagenet1k_valid_source.txt"\<newline>'' @
     ''    root_folder: "/datasets/imgNet/imagenet1k_valid_dataset/"\<newline>'' @
     ''    batch_size: 50\<newline>'' @
     ''    new_height: 256\<newline>'' @
     ''    new_width: 256\<newline>'' @
     ''  }\<newline>'' @
     ''}\<newline>''\<close>

subsection \<open>Construction\<close>

record dpu_compiler =
  dcf :: string
  mode :: string
  calib_iter :: int
  debug_output :: bool
  gpu :: int
  input_size :: int

text \<open>
  Modelled from the spec: \<^verbatim>\<open>aw_nas.utils.exception.expect\<close> is imported by dpu.py and is
  not among the source files. It is taken, as its three call arguments say, to raise the
  given exception type with the given message when the condition is false and to do
  nothing otherwise.
\<close>

definition expect :: "bool \<Rightarrow> string \<Rightarrow> (string \<Rightarrow> error) \<Rightarrow> error + unit" where
  "expect bool_expr message exception_type =
     (if bool_expr then Inr () else Inl (exception_type message))"

definition logging_DEBUG :: int where
  "logging_DEBUG = 10"

text \<open>
  \<^verbatim>\<open>__init__(self, dcf=None, mode="debug", calib_iter=0, gpu=0, input_size=None)\<close>.
  \<open>None\<close> is Python's \<^verbatim>\<open>None\<close>; \<open>LEVEL\<close> is the constant \<^verbatim>\<open>aw_nas.utils.log.LEVEL\<close>,
  which is not among the source files and is a parameter. The base class constructor
  (not among the source files either) is taken to return normally.
\<close>

definition DPUCompiler_init ::
  "int \<Rightarrow> string option \<Rightarrow> string \<Rightarrow> int \<Rightarrow> int \<Rightarrow> int option \<Rightarrow> error + dpu_compiler" where
  "DPUCompiler_init LEVEL dcf_arg mode_arg calib_iter_arg gpu_arg input_size_arg =
     (case expect (dcf_arg \<noteq> None) ''must specificy dcf file'' ConfigException of
        Inl e \<Rightarrow> Inl e
      | Inr _ \<Rightarrow>
     (case expect (input_size_arg \<noteq> None) ''must specificy `input_size`'' ConfigException of
        Inl e \<Rightarrow> Inl e
      | Inr _ \<Rightarrow>
        Inr \<lparr>dcf = the dcf_arg, mode = mode_arg, calib_iter = calib_iter_arg,
             debug_output = (LEVEL \<le> logging_DEBUG), gpu = gpu_arg,
             input_size = the input_size_arg\<rparr>))"

subsection \<open>The world the compiler acts on\<close>

text \<open>
  A positional argument of \<^verbatim>\<open>_run_pytorch_to_caffe\<close> is either a Python string or
  another object (here the constructed final model); of an object the model keeps the text
  that \<^verbatim>\<open>str\<close> gives for it, which is what \<^verbatim>\<open>format\<close> inserts.
\<close>

datatype pyval = PyStr string | PyObj string

fun py_str :: "pyval \<Rightarrow> string" where
  "py_str (PyStr s) = s"
| "py_str (PyObj r) = r"

text \<open>
  The file system: the regular files by path with their content as text, and the paths
  that are directories. Calls that leave the Python process are recorded in a trace, in
  the order they are made. Logger calls and the redirection of \<^verbatim>\<open>sys.stdout\<close> change
  nothing of this state and are left out.
\<close>

record fsys =
  files :: "string \<rightharpoonup> string"
  dirs :: "string set"

datatype event =
    TransNet pyval "int list" pyval
  | SavePrototxt string
  | SaveCaffemodel string
  | Makedir string
  | Makedirs string
  | Shell string "string option"
  | FileWrite string string
  | CopyFile string string

record world =
  disk :: fsys
  trace :: "event list"

text \<open>
  What the module calls and cannot be read from the source files: the component
  factory \<^verbatim>\<open>aw_nas.main._init_component\<close>, the converter \<^verbatim>\<open>pytorch_to_caffe.trans_net\<close>
  (it yields the network description and the weights that \<^verbatim>\<open>save_prototxt\<close> and
  \<^verbatim>\<open>save_caffemodel\<close> write), and the programs the shell runs (\<open>None\<close> is a non-zero
  exit status). The second argument of \<open>run_shell\<close> is the file that standard output and
  standard error are redirected to, when they are.
\<close>

record ('cfg, 'ss) toolchain =
  init_search_space :: "'cfg \<Rightarrow> error + 'ss"
  init_final_model :: "'cfg \<Rightarrow> 'ss \<Rightarrow> string \<Rightarrow> error + pyval"
  trans_net :: "pyval \<Rightarrow> int list \<Rightarrow> pyval \<Rightarrow> error + (string \<times> string)"
  run_shell :: "string \<Rightarrow> string option \<Rightarrow> fsys \<Rightarrow> fsys option"

type_synonym 'a prog = "world \<Rightarrow> (error + 'a) \<times> world"

definition succeed :: "'a \<Rightarrow> 'a prog" where
  "succeed x w = (Inr x, w)"

definition lift :: "error + 'a \<Rightarrow> 'a prog" where
  "lift r w = (r, w)"

definition and_then :: "'a prog \<Rightarrow> ('a \<Rightarrow> 'b prog) \<Rightarrow> 'b prog" where
  "and_then m f w = (case m w of (Inl e, w') \<Rightarrow> (Inl e, w') | (Inr x, w') \<Rightarrow> f x w')"

definition emit :: "event \<Rightarrow> world \<Rightarrow> world" where
  "emit e w = w\<lparr>trace := trace w @ [e]\<rparr>"

definition put_file :: "string \<Rightarrow> string \<Rightarrow> world \<Rightarrow> world" where
  "put_file path content w = w\<lparr>disk := (disk w)\<lparr>files := (files (disk w))(path \<mapsto> content)\<rparr>\<rparr>"

definition put_dir :: "string \<Rightarrow> world \<Rightarrow> world" where
  "put_dir path w = w\<lparr>disk := (disk w)\<lparr>dirs := insert path (dirs (disk w))\<rparr>\<rparr>"

definition path_exists :: "string \<Rightarrow> world \<Rightarrow> bool" where
  "path_exists path w = (path \<in> dirs (disk w) \<or> files (disk w) path \<noteq> None)"

text \<open>
  Modelled from the spec: \<^verbatim>\<open>aw_nas.utils.makedir\<close> is not among the source files. As it
  is used (\<^verbatim>\<open>ptc_out_dir = utils.makedir(...)\<close>), it makes sure the directory exists and
  returns its path.
\<close>

definition utils_makedir :: "string \<Rightarrow> string prog" where
  "utils_makedir path w = (Inr path, put_dir path (emit (Makedir path) w))"

definition os_makedirs :: "string \<Rightarrow> unit prog" where
  "os_makedirs path w = (Inr (), put_dir path (emit (Makedirs path) w))"

definition save_prototxt :: "string \<Rightarrow> string \<Rightarrow> unit prog" where
  "save_prototxt path content w = (Inr (), put_file path content (emit (SavePrototxt path) w))"

definition save_caffemodel :: "string \<Rightarrow> string \<Rightarrow> unit prog" where
  "save_caffemodel path content w =
     (Inr (), put_file path content (emit (SaveCaffemodel path) w))"

text \<open>\<^verbatim>\<open>open(path, "r").read()\<close> and \<^verbatim>\<open>open(path, "w").write(content)\<close>.\<close>

definition read_file :: "string \<Rightarrow> string prog" where
  "read_file path w =
     (case files (disk w) path of
        None \<Rightarrow> (Inl (FileNotFoundError path), w)
      | Some content \<Rightarrow> (Inr content, w))"

definition write_file :: "string \<Rightarrow> string \<Rightarrow> unit prog" where
  "write_file path content w = (Inr (), put_file path content (emit (FileWrite path content) w))"

text \<open>\<^verbatim>\<open>shutil.copy(src, dst)\<close>, for a destination that is not a directory.\<close>

definition shutil_copy :: "string \<Rightarrow> string \<Rightarrow> unit prog" where
  "shutil_copy src dst w =
     (case files (disk w) src of
        None \<Rightarrow> (Inl (FileNotFoundError src), emit (CopyFile src dst) w)
      | Some content \<Rightarrow> (Inr (), put_file dst content (emit (CopyFile src dst) w)))"

text \<open>
  \<^verbatim>\<open>subprocess.check_call(cmd, shell=True)\<close>: the command runs, and a non-zero exit
  status raises \<^verbatim>\<open>CalledProcessError\<close>.
\<close>

definition check_call :: "('cfg, 'ss) toolchain \<Rightarrow> string \<Rightarrow> string option \<Rightarrow> unit prog" where
  "check_call tc cmd logf w =
     (let w1 = emit (Shell cmd logf) w
      in case run_shell tc cmd logf (disk w1) of
           None \<Rightarrow> (Inl (CalledProcessError cmd), w1)
         | Some d \<Rightarrow> (Inr (), w1\<lparr>disk := d\<rparr>))"

subsection \<open>The text filter of \<^verbatim>\<open>_caffe_fix\<close>\<close>

text \<open>
  The first command of \<^verbatim>\<open>_caffe_fix\<close> is a pipeline of \<^verbatim>\<open>cat\<close> and four \<^verbatim>\<open>sed\<close>
  programs. \<^verbatim>\<open>sed\<close> works line by line: \<open>text_lines\<close> cuts a text after every newline
  (each line keeps its newline; a last line without one stays without, as GNU sed leaves
  it). None of the four patterns has a character that is special in a regular
  expression, so a line matches when it contains the pattern as a substring.
\<close>

fun text_lines :: "string \<Rightarrow> string list" where
  "text_lines [] = []"
| "text_lines (c # cs) =
     (if c = CHR ''\<newline>'' then [c] # text_lines cs
      else (case text_lines cs of [] \<Rightarrow> [[c]] | l # ls \<Rightarrow> (c # l) # ls))"

definition chomp :: "string \<Rightarrow> string" where
  "chomp l = (if l \<noteq> [] \<and> last l = CHR ''\<newline>'' then butlast l else l)"

fun contains :: "string \<Rightarrow> string \<Rightarrow> bool" where
  "contains sub [] = (sub = [])"
| "contains sub (c # cs) = (take (length sub) (c # cs) = sub \<or> contains sub cs)"

fun replace_first :: "string \<Rightarrow> string \<Rightarrow> string \<Rightarrow> string" where
  "replace_first old new [] = (if old = [] then new else [])"
| "replace_first old new (c # cs) =
     (if take (length old) (c # cs) = old then new @ drop (length old) (c # cs)
      else c # replace_first old new cs)"

text \<open>\<^verbatim>\<open>sed '/pat/d'\<close> and \<^verbatim>\<open>sed 's/old/new/'\<close> (no \<^verbatim>\<open>g\<close> flag).\<close>

definition sed_delete :: "string \<Rightarrow> string \<Rightarrow> string" where
  "sed_delete pat text = concat (filter (\<lambda>l. \<not> contains pat (chomp l)) (text_lines text))"

definition sed_subst_line :: "string \<Rightarrow> string \<Rightarrow> string \<Rightarrow> string" where
  "sed_subst_line old new l =
     (if l \<noteq> [] \<and> last l = CHR ''\<newline>''
      then replace_first old new (butlast l) @ [CHR ''\<newline>'']
      else replace_first old new l)"

definition sed_subst :: "string \<Rightarrow> string \<Rightarrow> string \<Rightarrow> string" where
  "sed_subst old new text = concat (map (sed_subst_line old new) (text_lines text))"

definition sed_pipeline :: "string \<Rightarrow> string" where
  \<open>sed_pipeline text =
     sed_subst ''"blob1"'' ''"data"''
       (sed_delete ''input:'' (sed_delete ''input_dim'' (sed_delete ''ceil_mode'' text)))\<close>

text \<open>
  The shell splits the command line into words, so the pipeline reads and writes the two
  files named only when both paths are single plain words. \<open>shell_word\<close> is a
  conservative test for that. For such paths, an existing input file and an output path
  that is not a directory, the effect of the pipeline is the one written out here; in
  every other case it is whatever the shell does (\<open>run_shell\<close>).
\<close>

definition shell_plain_char :: "char \<Rightarrow> bool" where
  "shell_plain_char c =
     (c \<in> set ''abcdefghijklmnopqrstuvwxyzABCDEFGHIJKLMNOPQRSTUVWXYZ0123456789/._-'')"

definition shell_word :: "string \<Rightarrow> bool" where
  "shell_word p = (p \<noteq> [] \<and> hd p \<noteq> CHR ''-'' \<and> list_all shell_plain_char p)"

definition check_call_sed ::
  "('cfg, 'ss) toolchain \<Rightarrow> string \<Rightarrow> string \<Rightarrow> string \<Rightarrow> unit prog" where
  "check_call_sed tc cmd src dst w =
     (if shell_word src \<and> shell_word dst \<and> dst \<notin> dirs (disk w)
         \<and> files (disk w) src \<noteq> None
      then (Inr (), put_file dst (sed_pipeline (the (files (disk w) src)))
                      (emit (Shell cmd None) w))
      else check_call tc cmd None w)"

subsection \<open>The three stages and \<^verbatim>\<open>compile\<close>\<close>

text \<open>
  \<^verbatim>\<open>_run_pytorch_to_caffe(self, model, name, output_dir, input_size, debug)\<close>.
  \<^verbatim>\<open>torch.ones\<close> refuses a negative dimension.
\<close>

definition call_trans_net ::
  "('cfg, 'ss) toolchain \<Rightarrow> pyval \<Rightarrow> int list \<Rightarrow> pyval \<Rightarrow> (string \<times> string) prog" where
  "call_trans_net tc model inputs name w =
     (trans_net tc model inputs name, emit (TransNet model inputs name) w)"

definition run_pytorch_to_caffe ::
  "('cfg, 'ss) toolchain \<Rightarrow> pyval \<Rightarrow> pyval \<Rightarrow> string \<Rightarrow> int \<Rightarrow> bool \<Rightarrow> (string \<times> string) prog" where
  "run_pytorch_to_caffe tc model name output_dir input_size_v debug =
     (if input_size_v < 0
      then lift (Inl (RuntimeError ''Trying to create tensor with negative dimension''))
      else
        and_then (call_trans_net tc model [1, 3, input_size_v, input_size_v] name) (\<lambda>net.
        and_then (utils_makedir output_dir) (\<lambda>_.
        and_then (lift (py_format ''{}/{}.prototxt'' [output_dir, py_str name] [])) (\<lambda>out_proto.
        and_then (lift (py_format ''{}/{}.caffemodel'' [output_dir, py_str name] []))
          (\<lambda>out_caffemodel.
        and_then (save_prototxt out_proto (fst net)) (\<lambda>_.
        and_then (save_caffemodel out_caffemodel (snd net)) (\<lambda>_.
        succeed (out_proto, out_caffemodel))))))))"

text \<open>
  \<^verbatim>\<open>_caffe_fix(self, prototxt, caffemodel, output_dir, gpu, calib_iter, input_size, debug)\<close>,
  in the three parts its comments name: the data layer of the input prototxt, the
  fixed-point run, and the prototxt for dnnc.
\<close>

definition sed_command_template :: string where
  \<open>sed_command_template =
     ''cat {} | sed '/ceil_mode/d' | sed '/input_dim/d' |'' @
     '' sed '/input:/d' | sed 's/"blob1"/"data"/' > {}''\<close>

definition caffe_fix_data_layer ::
  "('cfg, 'ss) toolchain \<Rightarrow> string \<Rightarrow> int \<Rightarrow> string prog" where
  "caffe_fix_data_layer tc prototxt input_size_v =
     (let input_prototxt = prototxt @ ''.tofix.prototxt''
      in and_then (lift (py_format sed_command_template [prototxt, input_prototxt] [])) (\<lambda>cmd.
         and_then (check_call_sed tc cmd prototxt input_prototxt) (\<lambda>_.
         and_then (read_file input_prototxt) (\<lambda>r.
         and_then (write_file input_prototxt
                     (py_replace ''INPUT_SIZE'' (py_str_int input_size_v) CAFFE_DATA_LAYER_STR @ r))
           (\<lambda>_.
         succeed input_prototxt)))))"

definition fix_command_template :: string where
  "fix_command_template =
     ''/home/foxfi/projects/caffe_dev/build/tools/deephi_fix fix -calib_iter {} '' @
     ''-gpu {} -model {} -weights {} -output_dir {}''"

definition caffe_fix_fixpoint ::
  "('cfg, 'ss) toolchain \<Rightarrow> string \<Rightarrow> string \<Rightarrow> string \<Rightarrow> int \<Rightarrow> int \<Rightarrow> unit prog" where
  "caffe_fix_fixpoint tc input_prototxt caffemodel output_dir gpu_v calib_iter_v =
     and_then (\<lambda>w. if \<not> path_exists output_dir w then os_makedirs output_dir w
                    else succeed () w) (\<lambda>_.
     (let log_file = os_path_join output_dir ''run_fix.log''
      in and_then (\<lambda>w. succeed () (put_file log_file [] w)) (\<lambda>_.
         and_then (lift (py_format fix_command_template
                     [py_str_int calib_iter_v, py_str_int gpu_v, input_prototxt, caffemodel,
                      output_dir] [])) (\<lambda>cmd.
         check_call tc cmd (Some log_file)))))"

definition caffe_fix_deploy :: "('cfg, 'ss) toolchain \<Rightarrow> string \<Rightarrow> (string \<times> string) prog" where
  "caffe_fix_deploy tc output_dir =
     (let output_prototxt = os_path_join output_dir ''deploy.prototxt'';
          mod_output_prototxt = os_path_join output_dir ''deploy_dnnc.prototxt'';
          output_caffemodel = os_path_join output_dir ''deploy.caffemodel''
      in and_then (shutil_copy output_prototxt mod_output_prototxt) (\<lambda>_.
         and_then (lift (py_format ''python modify_for_dnnc.py {}'' [mod_output_prototxt] []))
           (\<lambda>cmd.
         and_then (check_call tc cmd None) (\<lambda>_.
         succeed (mod_output_prototxt, output_caffemodel)))))"

definition caffe_fix ::
  "('cfg, 'ss) toolchain \<Rightarrow> string \<Rightarrow> string \<Rightarrow> string \<Rightarrow> int \<Rightarrow> int \<Rightarrow> int \<Rightarrow> bool
     \<Rightarrow> (string \<times> string) prog" where
  "caffe_fix tc prototxt caffemodel output_dir gpu_v calib_iter_v input_size_v debug =
     and_then (caffe_fix_data_layer tc prototxt input_size_v) (\<lambda>input_prototxt.
     and_then (caffe_fix_fixpoint tc input_prototxt caffemodel output_dir gpu_v calib_iter_v)
       (\<lambda>_.
     caffe_fix_deploy tc output_dir))"

text \<open>\<^verbatim>\<open>_run_dnnc(self, name, prototxt, caffemodel, output_dir, dcf, mode, debug=False)\<close>.\<close>

definition dnnc_command_template :: string where
  "dnnc_command_template =
     ''dnnc --mode {mode} --cpu_arch arm64 --save_kernel --prototxt {prototxt}'' @
     '' --caffemodel {caffemodel}  --output_dir {output_dir} --dcf {dcf} '' @
     ''--net_name {name}{debug_cmd}''"

definition run_dnnc ::
  "('cfg, 'ss) toolchain \<Rightarrow> string \<Rightarrow> string \<Rightarrow> string \<Rightarrow> string \<Rightarrow> string \<Rightarrow> string \<Rightarrow> bool
     \<Rightarrow> string prog" where
  "run_dnnc tc name prototxt caffemodel output_dir dcf_v mode_v debug =
     and_then (\<lambda>w. if \<not> path_exists output_dir w then os_makedirs output_dir w
                    else succeed () w) (\<lambda>_.
     and_then (lift (py_format dnnc_command_template []
                 [(''name'', name), (''prototxt'', prototxt), (''caffemodel'', caffemodel),
                  (''output_dir'', output_dir), (''dcf'', dcf_v), (''mode'', mode_v),
                  (''debug_cmd'', if debug then '' --dump=all'' else [])])) (\<lambda>cmd.
     and_then (check_call tc cmd None) (\<lambda>_.
     and_then (lift (py_format ''dpu_{}.elf'' [name] [])) (\<lambda>elf.
     succeed (os_path_join output_dir elf)))))"

text \<open>
  \<^verbatim>\<open>compile(self, compile_name, net_cfg, result_dir)\<close>. The call of
  \<^verbatim>\<open>_run_pytorch_to_caffe\<close> passes its arguments by position, \<^verbatim>\<open>compile_name\<close> first
  and the model second, as the source does. The method returns \<^verbatim>\<open>None\<close>.
\<close>

definition compile ::
  "('cfg, 'ss) toolchain \<Rightarrow> dpu_compiler \<Rightarrow> string \<Rightarrow> 'cfg \<Rightarrow> string \<Rightarrow> unit prog" where
  "compile tc self compile_name net_cfg result_dir =
     and_then (lift (init_search_space tc net_cfg)) (\<lambda>search_space.
     and_then (lift (py_format ''cuda:{}'' [py_str_int (gpu self)] [])) (\<lambda>device.
     and_then (lift (init_final_model tc net_cfg search_space device)) (\<lambda>model.
     and_then (utils_makedir (os_path_join result_dir ''pytorch_to_caffe'')) (\<lambda>ptc_out_dir.
     and_then (run_pytorch_to_caffe tc (PyStr compile_name) model ptc_out_dir
                 (input_size self) (debug_output self)) (\<lambda>(proto, caffemodel).
     and_then (caffe_fix tc proto caffemodel (os_path_join result_dir ''fix'')
                 (gpu self) (calib_iter self) (input_size self) (debug_output self))
       (\<lambda>(proto', caffemodel').
     and_then (lift (py_format ''dnnc_{}'' [mode self] [])) (\<lambda>dnnc_name.
     and_then (run_dnnc tc compile_name proto' caffemodel' (os_path_join result_dir dnnc_name)
                 (dcf self) (mode self) (debug_output self)) (\<lambda>_.
     succeed ()))))))))"

section \<open>The plugin (ssp_plugin.py)\<close>

text \<open>
  Python floats and tensor elements are modelled as real numbers: what the code computes is
  followed operation by operation, rounding and overflow are not. A division of Python
  floats by zero raises \<^verbatim>\<open>ZeroDivisionError\<close> and is modelled so.
\<close>

subsection \<open>\<^verbatim>\<open>weights_init\<close>\<close>

text \<open>
  A module tree: the four classes \<^verbatim>\<open>weights_init\<close> tells apart (with whether a
  convolution or linear layer has a bias), and any other \<^verbatim>\<open>torch.nn.Module\<close> with its
  child modules. \<open>NonModule\<close> is an object that is no module, with its class name.
\<close>

datatype module =
    Conv2d bool
  | Linear bool
  | BatchNorm2d
  | ReLU
  | Module "module list"

datatype pyobj = Mod module | NonModule string

text \<open>\<^verbatim>\<open>m.modules()\<close>: the module itself, then its descendants, depth first.\<close>

fun modules :: "module \<Rightarrow> module list" where
  "modules (Module cs) = Module cs # concat (map modules cs)"
| "modules m = [m]"

datatype init_action = KaimingUniform | ConstantBias | NormalWeight | ZeroBias

text \<open>
  \<^verbatim>\<open>weights_init(m, deepth=0, max_depth=2)\<close>. The result is what the call raises or the
  initialisations it performs, in order, paired with the depth of nested self-calls the
  call reaches (0 when it makes none). The recursive call is
  \<^verbatim>\<open>weights_init(m_, deepth)\<close>: it passes no \<^verbatim>\<open>max_depth\<close>, so the callee runs with
  the default 2. \<open>weights_init_loop\<close> is the \<^verbatim>\<open>for\<close> loop over \<^verbatim>\<open>m.modules()\<close>.
\<close>

function weights_init :: "pyobj \<Rightarrow> int \<Rightarrow> int \<Rightarrow> (error + init_action list) \<times> nat"
  and weights_init_loop :: "module list \<Rightarrow> int \<Rightarrow> (error + init_action list) \<times> nat" where
  "weights_init m deepth max_depth =
     (if deepth > max_depth then (Inr [], 0)
      else (case m of
          Mod (Conv2d bias) \<Rightarrow> (Inr (KaimingUniform # (if bias then [ConstantBias] else [])), 0)
        | Mod (Linear bias) \<Rightarrow> (Inr (NormalWeight # (if bias then [ZeroBias] else [])), 0)
        | Mod BatchNorm2d \<Rightarrow> (Inr [], 0)
        | Mod ReLU \<Rightarrow> (Inr [], 0)
        | Mod (Module cs) \<Rightarrow> weights_init_loop (modules (Module cs)) (deepth + 1)
        | NonModule cls \<Rightarrow> (Inl (ValueError (cls @ '' is unk'')), 0)))"
| "weights_init_loop [] deepth = (Inr [], 0)"
| "weights_init_loop (m1 # ms) deepth =
     (case weights_init (Mod m1) deepth 2 of
        (Inl e, k) \<Rightarrow> (Inl e, Suc k)
      | (Inr acts, k) \<Rightarrow>
          (case weights_init_loop ms deepth of
             (Inl e, k') \<Rightarrow> (Inl e, max (Suc k) k')
           | (Inr acts', k') \<Rightarrow> (Inr (acts @ acts'), max (Suc k) k')))"
  by pat_completeness auto
termination
  by (relation "inv_image (less_than <*lex*> less_than)
        (\<lambda>x. case x of
           Inl (m, d, md) \<Rightarrow> (if md = 2 then 2 * nat (3 - d) else 2 * nat (3 - d) + 2, 0)
         | Inr (ms, d) \<Rightarrow> (2 * nat (3 - d) + 1, length ms))") auto

declare weights_init.simps [simp del]

subsection \<open>The architecture blocks and their registration\<close>

text \<open>
  A block is kept as the call that constructs it (\<^verbatim>\<open>MobileBlock(C_in, C_out, kernel_size,
  stride, expansion, bn)\<close>, \<^verbatim>\<open>ResBlock\<close> likewise, \<^verbatim>\<open>VGGBlock(C_in, C_out,
  kernel_list, stride, bn)\<close>); the layers the constructors build are not modelled. A
  primitive is a function of \<^verbatim>\<open>(C_in, C_out, stride, affine)\<close>.
\<close>

datatype block =
    MobileBlock int int int int real bool
  | ResBlock int int int int real bool
  | VGGBlock int int "int list" int bool

type_synonym factory = "int \<Rightarrow> int \<Rightarrow> int \<Rightarrow> bool \<Rightarrow> block"

definition VGGblock_0 :: factory where
  "VGGblock_0 C_in C_out stride affine = VGGBlock C_in C_out [1] stride True"

definition VGGblock_1 :: factory where
  "VGGblock_1 C_in C_out stride affine = VGGBlock C_in C_out [3] stride True"

definition VGGblock_2 :: factory where
  "VGGblock_2 C_in C_out stride affine = VGGBlock C_in C_out [1,3] stride True"

definition VGGblock_3 :: factory where
  "VGGblock_3 C_in C_out stride affine = VGGBlock C_in C_out [5] stride True"

definition VGGblock_4 :: factory where
  "VGGblock_4 C_in C_out stride affine = VGGBlock C_in C_out [1,5] stride True"

definition VGGblock_5 :: factory where
  "VGGblock_5 C_in C_out stride affine = VGGBlock C_in C_out [3,3] stride True"

definition VGGblock_6 :: factory where
  "VGGblock_6 C_in C_out stride affine = VGGBlock C_in C_out [1,3,3] stride True"

definition VGGblock_7 :: factory where
  "VGGblock_7 C_in C_out stride affine = VGGBlock C_in C_out [7] stride True"

definition VGGblock_8 :: factory where
  "VGGblock_8 C_in C_out stride affine = VGGBlock C_in C_out [1,7] stride True"

definition VGGblock_9 :: factory where
  "VGGblock_9 C_in C_out stride affine = VGGBlock C_in C_out [3,5] stride True"

definition VGGblock_10 :: factory where
  "VGGblock_10 C_in C_out stride affine = VGGBlock C_in C_out [1,3,5] stride True"

definition VGGblock_11 :: factory where
  "VGGblock_11 C_in C_out stride affine = VGGBlock C_in C_out [3,3,3] stride True"

definition VGGblock_12 :: factory where
  "VGGblock_12 C_in C_out stride affine = VGGBlock C_in C_out [1,3,3,3] stride True"

definition Resblock_0 :: factory where
  "Resblock_0 C_in C_out stride affine = ResBlock C_in C_out 3 stride 1 True"

definition Resblock_1 :: factory where
  "Resblock_1 C_in C_out stride affine = ResBlock C_in C_out 5 stride 1 True"

definition Resblock_2 :: factory where
  "Resblock_2 C_in C_out stride affine = ResBlock C_in C_out 7 stride 1 True"

definition Resblock_3 :: factory where
  "Resblock_3 C_in C_out stride affine = ResBlock C_in C_out 3 stride (1 / 2) True"

definition Resblock_4 :: factory where
  "Resblock_4 C_in C_out stride affine = ResBlock C_in C_out 5 stride (1 / 2) True"

definition Resblock_5 :: factory where
  "Resblock_5 C_in C_out stride affine = ResBlock C_in C_out 7 stride (1 / 2) True"

definition Resblock_6 :: factory where
  "Resblock_6 C_in C_out stride affine = ResBlock C_in C_out 3 stride (1 / 4) True"

definition Resblock_7 :: factory where
  "Resblock_7 C_in C_out stride affine = ResBlock C_in C_out 5 stride (1 / 4) True"

definition Resblock_8 :: factory where
  "Resblock_8 C_in C_out stride affine = ResBlock C_in C_out 7 stride (1 / 4) True"

definition Mobileblock_0 :: factory where
  "Mobileblock_0 C_in C_out stride affine = MobileBlock C_in C_out 3 stride 1 True"

definition Mobileblock_1 :: factory where
  "Mobileblock_1 C_in C_out stride affine = MobileBlock C_in C_out 5 stride 1 True"

definition Mobileblock_2 :: factory where
  "Mobileblock_2 C_in C_out stride affine = MobileBlock C_in C_out 7 stride 1 True"

definition Mobileblock_3 :: factory where
  "Mobileblock_3 C_in C_out stride affine = MobileBlock C_in C_out 3 stride (1 / 3) True"

definition Mobileblock_4 :: factory where
  "Mobileblock_4 C_in C_out stride affine = MobileBlock C_in C_out 5 stride (1 / 3) True"

definition Mobileblock_5 :: factory where
  "Mobileblock_5 C_in C_out stride affine = MobileBlock C_in C_out 7 stride (1 / 3) True"

definition Mobileblock_6 :: factory where
  "Mobileblock_6 C_in C_out stride affine = MobileBlock C_in C_out 3 stride (1 / 6) True"

definition Mobileblock_7 :: factory where
  "Mobileblock_7 C_in C_out stride affine = MobileBlock C_in C_out 5 stride (1 / 6) True"

definition Mobileblock_8 :: factory where
  "Mobileblock_8 C_in C_out stride affine = MobileBlock C_in C_out 7 stride (1 / 6) True"

text \<open>
  Modelled from the spec: \<^verbatim>\<open>aw_nas.ops.register_primitive\<close> is imported by the plugin and
  is not among the source files. It is taken to enter the function in the table of
  primitives under the given name, and to refuse (by assertion) a name the table already
  has; no \<^verbatim>\<open>override\<close> argument is passed here.
\<close>

type_synonym registry = "(string \<times> factory) list"

definition register_primitive :: "string \<Rightarrow> factory \<Rightarrow> registry \<Rightarrow> error + registry" where
  "register_primitive name func reg =
     (if name \<in> set (map fst reg) then Inl AssertionError else Inr (reg @ [(name, func)]))"

text \<open>The 31 calls at module level, in the order of the source.\<close>

definition plugin_registrations :: "(string \<times> factory) list" where
  "plugin_registrations = [
      (''Mobileblock_0'', Mobileblock_0), (''Mobileblock_1'', Mobileblock_1), (''Mobileblock_2'', Mobileblock_2),
      (''Mobileblock_3'', Mobileblock_3), (''Mobileblock_4'', Mobileblock_4), (''Mobileblock_5'', Mobileblock_5),
      (''Mobileblock_6'', Mobileblock_6), (''Mobileblock_7'', Mobileblock_7), (''Mobileblock_8'', Mobileblock_8),
      (''Resblock_0'', Resblock_0), (''Resblock_1'', Resblock_1), (''Resblock_2'', Resblock_2),
      (''Resblock_3'', Resblock_3), (''Resblock_4'', Resblock_4), (''Resblock_5'', Resblock_5),
      (''Resblock_6'', Resblock_6), (''Resblock_7'', Resblock_7), (''Resblock_8'', Resblock_8),
      (''VGGblock_0'', VGGblock_0), (''VGGblock_1'', VGGblock_1), (''VGGblock_2'', VGGblock_2),
      (''VGGblock_3'', VGGblock_3), (''VGGblock_4'', VGGblock_4), (''VGGblock_5'', VGGblock_5),
      (''VGGblock_6'', VGGblock_6), (''VGGblock_7'', VGGblock_7), (''VGGblock_8'', VGGblock_8),
      (''VGGblock_9'', VGGblock_9), (''VGGblock_10'', VGGblock_10), (''VGGblock_11'', VGGblock_11),
      (''VGGblock_12'', VGGblock_12)]"

fun register_all :: "(string \<times> factory) list \<Rightarrow> registry \<Rightarrow> error + registry" where
  "register_all [] reg = Inr reg"
| "register_all ((name, func) # calls) reg =
     (case register_primitive name func reg of
        Inl e \<Rightarrow> Inl e
      | Inr reg' \<Rightarrow> register_all calls reg')"

definition import_plugin :: "registry \<Rightarrow> error + registry" where
  "import_plugin reg = register_all plugin_registrations reg"

datatype component = LatencyObjective | WeightInitDiffSuperNet

record awnas_plugin =
  NAME :: string
  objective_list :: "component list"
  weights_manager_list :: "component list"

definition FBNetPlugin :: awnas_plugin where
  "FBNetPlugin =
     \<lparr>NAME = ''fbnet'', objective_list = [LatencyObjective],
      weights_manager_list = [WeightInitDiffSuperNet]\<rparr>"

subsection \<open>\<^verbatim>\<open>CosineDecayLR\<close>\<close>

text \<open>
  The scheduler's attributes. \<open>last_epoch\<close> and \<open>base_lrs\<close> are those of the base class
  \<^verbatim>\<open>_LRScheduler\<close>. \<open>T_max\<close> and \<open>warmup_step\<close> are integers (step counts), the factors
  are floats. \<^verbatim>\<open>int(x)\<close> of a float rounds towards zero.
\<close>

record cosine_decay_lr =
  T_max :: int
  alpha :: real
  t_mul :: real
  lr_mul :: real
  warmup_step :: int
  last_restart_step :: int
  flag :: bool
  last_epoch :: int
  base_lrs :: "real list"
  min_lrs :: "real list"
  rise_lrs :: "real list"





subsection \<open>\<^verbatim>\<open>LatencyObjective\<close>\<close>

text \<open>
  The objective's attributes. \<open>lamb\<close> may be \<^verbatim>\<open>None\<close>. The look-up table has one row
  of latencies per layer, one entry per primitive.
\<close>

record latency_objective =
  alpha :: real
  beta :: real
  lamb :: "real option"
  latency_lut :: "real list list"
  min_lat :: real
  max_lat :: real

text \<open>\<^verbatim>\<open>min(xs)\<close> and \<^verbatim>\<open>max(xs)\<close> of a list: an empty list raises \<^verbatim>\<open>ValueError\<close>.\<close>

fun py_min :: "real list \<Rightarrow> error + real" where
  "py_min [] = Inl (ValueError ''min() arg is an empty sequence'')"
| "py_min (x # xs) = Inr (foldl min x xs)"

fun py_max :: "real list \<Rightarrow> error + real" where
  "py_max [] = Inl (ValueError ''max() arg is an empty sequence'')"
| "py_max (x # xs) = Inr (foldl max x xs)"

text \<open>\<^verbatim>\<open>sum([f(row) for row in rows])\<close>, where \<open>f\<close> can raise.\<close>

fun sum_over :: "(real list \<Rightarrow> error + real) \<Rightarrow> real list list \<Rightarrow> error + real" where
  "sum_over f [] = Inr 0"
| "sum_over f (row # rows) =
     (case f row of
        Inl e \<Rightarrow> Inl e
      | Inr x \<Rightarrow> (case sum_over f rows of Inl e \<Rightarrow> Inl e | Inr s \<Rightarrow> Inr (x + s)))"

text \<open>
  \<^verbatim>\<open>__init__(self, search_space, alpha=0.2, beta=0.6, lamb=None, latency_file="speed.txt")\<close>.
  The file is given by the table read from it (\<open>None\<close> when the file does not exist):
  each line is split at white space and each field converted by \<^verbatim>\<open>float\<close>.
\<close>

definition LatencyObjective_init ::
  "real \<Rightarrow> real \<Rightarrow> real option \<Rightarrow> real list list option \<Rightarrow> error + latency_objective" where
  "LatencyObjective_init alpha_arg beta_arg lamb_arg latency_file =
     (case latency_file of
        None \<Rightarrow> Inl AssertionError
      | Some lut \<Rightarrow>
          (case sum_over py_min lut of
             Inl e \<Rightarrow> Inl e
           | Inr lo \<Rightarrow>
               (case sum_over py_max lut of
                  Inl e \<Rightarrow> Inl e
                | Inr hi \<Rightarrow>
                    Inr \<lparr>alpha = alpha_arg, beta = beta_arg, lamb = lamb_arg,
                         latency_lut = lut, min_lat = lo, max_lat = hi\<rparr>)))"

text \<open>
  What \<^verbatim>\<open>get_reward\<close> reads of the search space and of the candidate network. A
  genotype of the first half of \<^verbatim>\<open>cand_net.genotypes\<close> is a list of connections
  (each a list starting with the primitive's name); the second half holds the concat
  nodes, lists of integers.
\<close>

record search_space =
  cell_shared_primitives :: "string list list"
  cell_layout :: "nat list"

datatype geno = Cell "string list list" | Concat "int list"

text \<open>\<^verbatim>\<open>xs[i]\<close> for an index that is not negative, and \<^verbatim>\<open>xs.index(x)\<close>.\<close>

definition py_getitem :: "'a list \<Rightarrow> nat \<Rightarrow> error + 'a" where
  "py_getitem xs i = (if i < length xs then Inr (xs ! i) else Inl IndexError)"

fun py_index :: "'a list \<Rightarrow> 'a \<Rightarrow> error + nat" where
  "py_index [] x = Inl (ValueError ''x is not in list'')"
| "py_index (y # ys) x =
     (if y = x then Inr 0
      else (case py_index ys x of Inl e \<Rightarrow> Inl e | Inr i \<Rightarrow> Inr (Suc i)))"

text \<open>\<^verbatim>\<open>geno[0][0]\<close>.\<close>

fun geno_prim :: "geno \<Rightarrow> error + string" where
  "geno_prim (Cell conns) =
     (case py_getitem conns 0 of Inl e \<Rightarrow> Inl e | Inr conn \<Rightarrow> py_getitem conn 0)"
| "geno_prim (Concat nodes) =
     (case py_getitem nodes 0 of
        Inl e \<Rightarrow> Inl e
      | Inr n \<Rightarrow> Inl (TypeError ''int object is not subscriptable''))"

text \<open>One turn of the loop of \<^verbatim>\<open>get_reward\<close>: the latency added for layer \<open>i_layer\<close>.\<close>

definition layer_latency ::
  "latency_objective \<Rightarrow> search_space \<Rightarrow> nat \<Rightarrow> geno \<Rightarrow> error + real" where
  "layer_latency self ss i_layer g =
     (case geno_prim g of Inl e \<Rightarrow> Inl e | Inr prim \<Rightarrow>
     (case py_getitem (cell_layout ss) i_layer of Inl e \<Rightarrow> Inl e | Inr cg \<Rightarrow>
     (case py_getitem (cell_shared_primitives ss) cg of Inl e \<Rightarrow> Inl e | Inr prims \<Rightarrow>
     (case py_getitem (latency_lut self) i_layer of Inl e \<Rightarrow> Inl e | Inr row \<Rightarrow>
     (case py_index prims prim of Inl e \<Rightarrow> Inl e | Inr k \<Rightarrow>
        py_getitem row k)))))"

fun reward_loop ::
  "latency_objective \<Rightarrow> search_space \<Rightarrow> nat \<Rightarrow> geno list \<Rightarrow> real \<Rightarrow> error + real" where
  "reward_loop self ss i_layer [] latency_penalty = Inr latency_penalty"
| "reward_loop self ss i_layer (g # gs) latency_penalty =
     (case layer_latency self ss i_layer g of
        Inl e \<Rightarrow> Inl e
      | Inr v \<Rightarrow> reward_loop self ss (Suc i_layer) gs (latency_penalty + v))"

text \<open>
  \<^verbatim>\<open>get_reward(self, inputs, outputs, targets, cand_net)\<close>. \<open>top1\<close> stands for
  \<^verbatim>\<open>float(accuracy(outputs, targets)[0])\<close>, the top-1 accuracy in percent
  (\<^verbatim>\<open>aw_nas.utils.torch_utils.accuracy\<close> is not among the source files); \<open>genotypes\<close> is
  \<^verbatim>\<open>cand_net.genotypes\<close>.
\<close>

definition get_reward ::
  "latency_objective \<Rightarrow> search_space \<Rightarrow> real \<Rightarrow> geno list \<Rightarrow> error + real" where
  "get_reward self ss top1 genotypes =
     (let acc = top1 / 100
      in case lamb self of
           None \<Rightarrow> Inr acc
         | Some l \<Rightarrow>
             (let num_cells = length genotypes div 2;
                  prim_types = take num_cells genotypes
              in case reward_loop self ss 0 prim_types 0 of
                   Inl e \<Rightarrow> Inl e
                 | Inr latency_penalty \<Rightarrow>
                     if latency_penalty = 0 then Inl ZeroDivisionError
                     else if max_lat self = 0 then Inl ZeroDivisionError
                     else Inr (acc + l * (1 / latency_penalty - 1 / max_lat self))))"

text \<open>
  \<^verbatim>\<open>get_loss\<close> works on tensors. \<^verbatim>\<open>arch[0]\<close> of a layer has one or two dimensions
  (a two-dimensional one is a list of rows of equal length). A result \<open>None\<close> means that
  the floating-point computation leaves the real numbers (an infinity or a NaN arises, as
  it does for a two-dimensional tensor with no rows), which this model does not follow
  further.
\<close>

datatype tensor = Vec "real list" | Mat "real list list"

text \<open>
  \<^verbatim>\<open>(a * b).sum()\<close> for one-dimensional \<open>a\<close> and \<open>b\<close>: element by element when the
  sizes agree, a size of one is broadcast, other sizes do not fit.
\<close>

definition mul_sum :: "real list \<Rightarrow> real list \<Rightarrow> error + real" where
  "mul_sum a b =
     (if length a = length b then Inr (sum_list (map (\<lambda>(x, y). x * y) (zip a b)))
      else if length a = 1 then Inr (sum_list (map (\<lambda>y. hd a * y) b))
      else if length b = 1 then Inr (sum_list (map (\<lambda>x. x * hd b) a))
      else Inl (RuntimeError ''The size of tensor a must match the size of tensor b''))"

fun mul_sum_rows :: "real list list \<Rightarrow> real list \<Rightarrow> error + real" where
  "mul_sum_rows [] b = Inr 0"
| "mul_sum_rows (a # as) b =
     (case mul_sum a b of
        Inl e \<Rightarrow> Inl e
      | Inr x \<Rightarrow> (case mul_sum_rows as b of Inl e \<Rightarrow> Inl e | Inr s \<Rightarrow> Inr (x + s)))"

text \<open>
  The latency of one layer in \<^verbatim>\<open>get_loss\<close>: the sum of the products, divided by
  \<^verbatim>\<open>arch[0].shape[0]\<close> when \<^verbatim>\<open>arch[0]\<close> has two dimensions.
\<close>

fun tensor_latency :: "tensor \<Rightarrow> real list \<Rightarrow> (error + real) option" where
  "tensor_latency (Vec a) row = Some (mul_sum a row)"
| "tensor_latency (Mat rows) row =
     (if rows = [] then None
      else Some (case mul_sum_rows rows row of
                   Inl e \<Rightarrow> Inl e
                 | Inr s \<Rightarrow> Inr (s / real (length rows))))"

text \<open>\<^verbatim>\<open>x.pow(b)\<close> of a tensor element, where the result is a finite number.\<close>

definition tensor_pow :: "real \<Rightarrow> real \<Rightarrow> real option" where
  "tensor_pow x b =
     (if 0 < x then Some (x powr b)
      else if b = 0 then Some 1
      else if x = 0 then (if 0 < b then Some 0 else None)
      else if real_of_int \<lfloor>b\<rfloor> = b then Some (power_int x \<lfloor>b\<rfloor>)
      else None)"

fun loss_loop ::
  "real list list \<Rightarrow> nat \<Rightarrow> tensor list \<Rightarrow> real \<Rightarrow> (error + real) option" where
  "loss_loop lut i_layer [] latency_loss = Some (Inr latency_loss)"
| "loss_loop lut i_layer (a # as) latency_loss =
     (case py_getitem lut i_layer of
        Inl e \<Rightarrow> Some (Inl e)
      | Inr row \<Rightarrow>
          (case tensor_latency a row of
             None \<Rightarrow> None
           | Some (Inl e) \<Rightarrow> Some (Inl e)
           | Some (Inr latency) \<Rightarrow> loss_loop lut (Suc i_layer) as (latency_loss + latency)))"

text \<open>
  \<^verbatim>\<open>get_loss(self, inputs, outputs, targets, cand_net, add_controller_regularization,
  add_evaluator_regularization)\<close>. \<open>ce\<close> stands for the value of
  \<^verbatim>\<open>nn.CrossEntropyLoss()(outputs, targets)\<close>; \<open>arch0s\<close> is \<^verbatim>\<open>arch[0]\<close> for every
  \<^verbatim>\<open>arch\<close> of \<^verbatim>\<open>cand_net.arch\<close>. With no layer at all \<^verbatim>\<open>latency_loss\<close> is still the
  Python float it started as, which has no \<^verbatim>\<open>pow\<close>.
\<close>

definition get_loss ::
  "latency_objective \<Rightarrow> real \<Rightarrow> tensor list \<Rightarrow> bool \<Rightarrow> bool \<Rightarrow> (error + real) option" where
  "get_loss self ce arch0s add_controller_regularization add_evaluator_regularization =
     (if add_controller_regularization then
        (case loss_loop (latency_lut self) 0 arch0s 0 of
           None \<Rightarrow> None
         | Some (Inl e) \<Rightarrow> Some (Inl e)
         | Some (Inr latency_loss) \<Rightarrow>
             if arch0s = [] then Some (Inl (AttributeError ''float object has no attribute pow''))
             else (case tensor_pow latency_loss (beta self) of
                     None \<Rightarrow> None
                   | Some p \<Rightarrow> Some (Inr (ce * alpha self * p))))
      else Some (Inr ce))"

section \<open>Auxiliary definitions for the statements\<close>

text \<open>A program only ever adds events at the end of the trace.\<close>

definition appends :: "'a prog \<Rightarrow> bool" where
  "appends p = (\<forall>w. \<exists>es. trace (snd (p w)) = trace w @ es)"



text \<open>
  A toolchain, a compiler object and a world to run the model on: every component and
  conversion succeeds, the model prints as \<^verbatim>\<open>Net\<close>, and every program the shell runs
  leaves a \<^verbatim>\<open>deploy.prototxt\<close> in \<^verbatim>\<open>out/fix\<close>.
\<close>

definition tc_example :: "(unit, unit) toolchain" where
  "tc_example =
     \<lparr>init_search_space = (\<lambda>_. Inr ()),
      init_final_model = (\<lambda>_ _ _. Inr (PyObj ''Net'')),
      trans_net = (\<lambda>_ _ _. Inr (''input: x\<newline>layer\<newline>'', ''W'')),
      run_shell = (\<lambda>cmd logf d. Some (d\<lparr>files := (files d)(''out/fix/deploy.prototxt'' \<mapsto> ''D'')\<rparr>))\<rparr>"

definition self_example :: dpu_compiler where
  "self_example =
     \<lparr>dcf = ''a.dcf'', mode = ''debug'', calib_iter = 0, debug_output = False, gpu = 0,
      input_size = 224\<rparr>"

definition world_example :: world where
  "world_example = \<lparr>disk = \<lparr>files = Map.empty, dirs = {}\<rparr>, trace = []\<rparr>"






text \<open>
  The reward in the words of the claim about it: the primitive chosen for a layer is the
  first entry of the first connection of its genotype, and its latency is the entry of
  the layer's row of the look-up table at the position the primitive has among the
  primitives of the layer's cell group. \<open>layer_ok\<close> says that these look-ups are all in
  range.
\<close>

definition first_index :: "'a list \<Rightarrow> 'a \<Rightarrow> nat" where
  "first_index ys x = length (takeWhile (\<lambda>y. y \<noteq> x) ys)"

definition chosen_prim :: "geno \<Rightarrow> string" where
  "chosen_prim g = (case g of Cell conns \<Rightarrow> hd (hd conns) | Concat nodes \<Rightarrow> [])"

definition chosen_latency ::
  "latency_objective \<Rightarrow> search_space \<Rightarrow> geno list \<Rightarrow> nat \<Rightarrow> real" where
  "chosen_latency self ss gs i =
     latency_lut self ! i !
       first_index (cell_shared_primitives ss ! (cell_layout ss ! i)) (chosen_prim (gs ! i))"

definition layer_ok :: "latency_objective \<Rightarrow> search_space \<Rightarrow> geno list \<Rightarrow> nat \<Rightarrow> bool" where
  "layer_ok self ss gs i =
     (case gs ! i of
        Concat nodes \<Rightarrow> False
      | Cell conns \<Rightarrow>
          conns \<noteq> [] \<and> hd conns \<noteq> [] \<and> i < length (cell_layout ss)
          \<and> cell_layout ss ! i < length (cell_shared_primitives ss)
          \<and> hd (hd conns) \<in> set (cell_shared_primitives ss ! (cell_layout ss ! i))
          \<and> i < length (latency_lut self)
          \<and> first_index (cell_shared_primitives ss ! (cell_layout ss ! i)) (hd (hd conns))
                < length (latency_lut self ! i))"

text \<open>
  The loss in the words of the claim about it: the inner product of \<^verbatim>\<open>arch[0]\<close> with a
  row of the look-up table, for a two-dimensional \<^verbatim>\<open>arch[0]\<close> summed over its rows and
  divided by their number. \<open>shape_ok\<close> says that the sizes agree.
\<close>

definition inner_product :: "real list \<Rightarrow> real list \<Rightarrow> real" where
  "inner_product a b = (\<Sum>j<length b. a ! j * b ! j)"

fun spec_latency :: "tensor \<Rightarrow> real list \<Rightarrow> real" where
  "spec_latency (Vec a) row = inner_product a row"
| "spec_latency (Mat rows) row = (\<Sum>r\<leftarrow>rows. inner_product r row) / real (length rows)"

fun shape_ok :: "tensor \<Rightarrow> real list \<Rightarrow> bool" where
  "shape_ok (Vec a) row = (length a = length row)"
| "shape_ok (Mat rows) row = (rows \<noteq> [] \<and> list_all (\<lambda>r. length r = length row) rows)"

text \<open>An objective, a search space and a candidate network to evaluate the model on.\<close>

definition objective_example :: latency_objective where
  "objective_example =
     \<lparr>alpha = 1 / 5, beta = 1, lamb = Some 1, latency_lut = [[1, 2], [3, 4]],
      min_lat = 4, max_lat = 6\<rparr>"

definition search_space_example :: search_space where
  "search_space_example = \<lparr>cell_shared_primitives = [[''a'', ''b'']], cell_layout = [0, 0]\<rparr>"

definition genotypes_example :: "geno list" where
  "genotypes_example = [Cell [[''b'']], Cell [[''a'']], Concat [1], Concat [1]]"

definition archs_example :: "tensor list" where
  "archs_example = [Vec [1 / 2, 1 / 2], Mat [[1, 0], [0, 1]]]"


section \<open>Properties of the DPU compiler\<close>

subsection \<open>Formatting the paths and command lines\<close>



lemma py_format_cuda: "py_format ''cuda:{}'' [a] [] = Inr (''cuda:'' @ a)"
  by (simp add: prepend_def)







lemma replace_template:
  \<open>py_replace ''INPUT_SIZE'' x CAFFE_DATA_LAYER_STR =
     ''\<newline>layer {\<newline>  name: "data"\<newline>  type: "ImageData"\<newline>  top: "data"\<newline>  top: "label"\<newline>  transform_param {\<newline>    crop_size: '' @ x @
     ''\<newline>    mean_value: 103.53\<newline>    mean_value: 116.28\<newline>    mean_value: 123.675\<newline>    use_standard_std: true\<newline>  }\<newline>  image_data_param {\<newline>    source: "/datasets/imgNet/imagenet1k_valid_source.txt"\<newline>    root_folder: "/datasets/imgNet/imagenet1k_valid_dataset/"\<newline>    batch_size: 50\<newline>    new_height: 256\<newline>    new_width: 256\<newline>  }\<newline>}\<newline>''\<close>
  by (simp add: CAFFE_DATA_LAYER_STR_def)

declare py_format.simps [simp del]

subsection \<open>Sequencing and the trace\<close>



lemma and_then_Inr_eq:
  "m w = (Inr x, w') \<Longrightarrow> and_then m f w = f x w'"
  by (simp add: and_then_def)

lemma and_then_Inl_eq:
  "m w = (Inl e, w') \<Longrightarrow> and_then m f w = (Inl e, w')"
  by (simp add: and_then_def)

lemma and_then_lift_Inr [simp]: "and_then (lift (Inr x)) f = f x"
  by (rule ext) (simp add: and_then_def lift_def)

lemma and_then_succeed [simp]: "and_then (succeed x) f = f x"
  by (rule ext) (simp add: and_then_def succeed_def)

lemma appendsI: "(\<And>w. \<exists>es. trace (snd (p w)) = trace w @ es) \<Longrightarrow> appends p"
  by (simp add: appends_def)

lemma appendsD: "appends p \<Longrightarrow> \<exists>es. trace (snd (p w)) = trace w @ es"
  by (simp add: appends_def)

lemma and_then_trace:
  assumes "\<And>x. appends (f x)"
  shows "\<exists>es. trace (snd (and_then m f w)) = trace (snd (m w)) @ es"
proof (cases "m w")
  case (Pair r w')
  show ?thesis
  proof (cases r)
    case (Inl e)
    with Pair show ?thesis by (simp add: and_then_def)
  next
    case (Inr x)
    from assms [of x] obtain es where "trace (snd (f x w')) = trace w' @ es"
      by (auto simp: appends_def)
    with Pair Inr show ?thesis by (simp add: and_then_def)
  qed
qed

lemma appends_and_then:
  assumes "appends m" and "\<And>x. appends (f x)"
  shows "appends (and_then m f)"
proof (rule appendsI)
  fix w
  from assms(1) obtain es where 1: "trace (snd (m w)) = trace w @ es"
    by (auto simp: appends_def)
  from and_then_trace [of f m w, OF assms(2)]
  obtain es' where "trace (snd (and_then m f w)) = trace (snd (m w)) @ es'"
    by blast
  with 1 show "\<exists>es. trace (snd (and_then m f w)) = trace w @ es"
    by simp
qed

lemma trace_emit [simp]: "trace (emit e w) = trace w @ [e]"
  by (simp add: emit_def)

lemma trace_put_file [simp]: "trace (put_file p c w) = trace w"
  by (simp add: put_file_def)

lemma trace_put_dir [simp]: "trace (put_dir p w) = trace w"
  by (simp add: put_dir_def)

lemma appends_lift [simp]: "appends (lift r)"
  by (simp add: appends_def lift_def)

lemma appends_succeed [simp]: "appends (succeed x)"
  by (simp add: appends_def succeed_def)

lemma appends_utils_makedir [simp]: "appends (utils_makedir p)"
  by (simp add: appends_def utils_makedir_def)

lemma appends_os_makedirs [simp]: "appends (os_makedirs p)"
  by (simp add: appends_def os_makedirs_def)

lemma appends_save_prototxt [simp]: "appends (save_prototxt p c)"
  by (simp add: appends_def save_prototxt_def)

lemma appends_save_caffemodel [simp]: "appends (save_caffemodel p c)"
  by (simp add: appends_def save_caffemodel_def)

lemma appends_read_file [simp]: "appends (read_file p)"
  by (simp add: appends_def read_file_def split: option.splits)

lemma appends_write_file [simp]: "appends (write_file p c)"
  by (simp add: appends_def write_file_def)

lemma appends_shutil_copy [simp]: "appends (shutil_copy a b)"
  by (simp add: appends_def shutil_copy_def split: option.splits)

lemma appends_check_call [simp]: "appends (check_call tc cmd logf)"
  by (simp add: appends_def check_call_def Let_def split: option.splits)

lemma appends_check_call_sed [simp]: "appends (check_call_sed tc cmd a b)"
  using appends_check_call [of tc cmd None]
  by (simp add: appends_def check_call_sed_def)

lemma appends_call_trans_net [simp]: "appends (call_trans_net tc m i n)"
  by (simp add: appends_def call_trans_net_def)

lemma appends_ensure_dir [simp]:
  "appends (\<lambda>w. if \<not> path_exists p w then os_makedirs p w else succeed () w)"
  by (simp add: appends_def os_makedirs_def succeed_def)

lemma appends_truncate [simp]: "appends (\<lambda>w. succeed () (put_file p c w))"
  by (simp add: appends_def succeed_def)

lemma appends_run_pytorch_to_caffe [simp]: "appends (run_pytorch_to_caffe tc m n od s dbg)"
  unfolding run_pytorch_to_caffe_def
  by (auto intro!: appends_and_then)

lemma appends_caffe_fix_data_layer [simp]: "appends (caffe_fix_data_layer tc p s)"
  unfolding caffe_fix_data_layer_def Let_def
  by (auto intro!: appends_and_then)

lemma appends_caffe_fix_fixpoint [simp]: "appends (caffe_fix_fixpoint tc ip cm od g c)"
  unfolding caffe_fix_fixpoint_def Let_def
  by (intro appends_and_then allI appends_ensure_dir appends_truncate appends_lift
      appends_check_call)

lemma appends_caffe_fix_deploy [simp]: "appends (caffe_fix_deploy tc od)"
  unfolding caffe_fix_deploy_def Let_def
  by (auto intro!: appends_and_then)

lemma appends_caffe_fix [simp]: "appends (caffe_fix tc p cm od g c s dbg)"
  unfolding caffe_fix_def
  by (auto intro!: appends_and_then)

lemma appends_run_dnnc [simp]: "appends (run_dnnc tc n p c od d m dbg)"
  unfolding run_dnnc_def
  by (intro appends_and_then allI appends_ensure_dir appends_lift appends_check_call
      appends_succeed)

subsection \<open>The stages one by one\<close>

lemma run_pytorch_to_caffe_trace:
  assumes "0 \<le> s"
  shows "\<exists>es. trace (snd (run_pytorch_to_caffe tc m n od s dbg w)) =
           trace w @ [TransNet m [1, 3, s, s] n] @ es"
proof -
  let ?k = "\<lambda>net.
        and_then (utils_makedir od) (\<lambda>_.
        and_then (lift (py_format ''{}/{}.prototxt'' [od, py_str n] [])) (\<lambda>out_proto.
        and_then (lift (py_format ''{}/{}.caffemodel'' [od, py_str n] []))
          (\<lambda>out_caffemodel.
        and_then (save_prototxt out_proto (fst net)) (\<lambda>_.
        and_then (save_caffemodel out_caffemodel (snd net)) (\<lambda>_.
        succeed (out_proto, out_caffemodel))))))"
  have "\<And>net. appends (?k net)"
    by (auto intro!: appends_and_then)
  from and_then_trace [of ?k "call_trans_net tc m [1, 3, s, s] n" w, OF this]
  obtain es where "trace (snd (and_then (call_trans_net tc m [1, 3, s, s] n) ?k w)) =
      trace (snd (call_trans_net tc m [1, 3, s, s] n w)) @ es"
    by blast
  with assms show ?thesis
    by (simp add: run_pytorch_to_caffe_def call_trans_net_def)
qed












subsection \<open>Construction\<close>

text \<open>
  Claim C9. \<^verbatim>\<open>DPUCompiler.__init__\<close> raises \<^verbatim>\<open>ConfigException\<close> exactly when
  \<^verbatim>\<open>dcf\<close> or \<^verbatim>\<open>input_size\<close> is \<^verbatim>\<open>None\<close>, raises nothing else, and otherwise
  stores \<^verbatim>\<open>dcf\<close>, \<^verbatim>\<open>mode\<close>, \<^verbatim>\<open>calib_iter\<close>, \<^verbatim>\<open>gpu\<close> and \<^verbatim>\<open>input_size\<close> as
  given.
\<close>

theorem DPUCompiler_init_config_exception:
  "((\<exists>msg. DPUCompiler_init LEVEL d m c g s = Inl (ConfigException msg)) \<longleftrightarrow>
      (d = None \<or> s = None))
   \<and> ((\<exists>e. DPUCompiler_init LEVEL d m c g s = Inl e) \<longleftrightarrow> (d = None \<or> s = None))
   \<and> (\<forall>dv sv. d = Some dv \<and> s = Some sv \<longrightarrow>
         DPUCompiler_init LEVEL d m c g s =
           Inr \<lparr>dcf = dv, mode = m, calib_iter = c, debug_output = (LEVEL \<le> logging_DEBUG),
                gpu = g, input_size = sv\<rparr>)"
  by (cases d; cases s) (simp_all add: DPUCompiler_init_def expect_def)

theorem DPUCompiler_init_witness:
  "DPUCompiler_init 20 (Some ''a.dcf'') ''debug'' 0 0 (Some 224) =
     Inr \<lparr>dcf = ''a.dcf'', mode = ''debug'', calib_iter = 0, debug_output = False, gpu = 0,
          input_size = 224\<rparr>
   \<and> (\<exists>msg. DPUCompiler_init 20 None ''debug'' 0 0 (Some 224) = Inl (ConfigException msg))
   \<and> (\<exists>msg. DPUCompiler_init 20 (Some ''a.dcf'') ''debug'' 0 0 None = Inl (ConfigException msg))"
  using DPUCompiler_init_config_exception [of 20 "Some ''a.dcf''" "''debug''" 0 0 "Some 224"]
    DPUCompiler_init_config_exception [of 20 None "''debug''" 0 0 "Some 224"]
    DPUCompiler_init_config_exception [of 20 "Some ''a.dcf''" "''debug''" 0 0 None]
  by (simp add: logging_DEBUG_def)

subsection \<open>The order of the stages\<close>



text \<open>
  Claim C2. \<^verbatim>\<open>compile\<close> passes \<^verbatim>\<open>compile_name\<close> in the place of the helper's
  \<^verbatim>\<open>model\<close> parameter and the final model in the place of \<^verbatim>\<open>name\<close>: the converter
  \<^verbatim>\<open>trans_net\<close> is called with the string \<^verbatim>\<open>compile_name\<close> as the network and the
  model object as the name.
\<close>

theorem compile_calls_converter_with_name_as_model:
  fixes tc :: "('cfg, 'ss) toolchain"
  assumes "init_search_space tc cfg = Inr ss"
    and "init_final_model tc cfg ss (''cuda:'' @ py_str_int (gpu self)) = Inr model"
    and "0 \<le> input_size self"
  shows "\<exists>rest. trace (snd (compile tc self cn cfg rd w)) =
           trace w @ [Makedir (os_path_join rd ''pytorch_to_caffe''),
                      TransNet (PyStr cn) [1, 3, input_size self, input_size self] model] @ rest"
proof -
  let ?ptc = "os_path_join rd ''pytorch_to_caffe''"
  let ?w1 = "put_dir ?ptc (emit (Makedir ?ptc) w)"
  let ?m = "run_pytorch_to_caffe tc (PyStr cn) model ?ptc (input_size self) (debug_output self)"
  let ?k = "\<lambda>(proto, caffemodel).
     and_then (caffe_fix tc proto caffemodel (os_path_join rd ''fix'')
                 (gpu self) (calib_iter self) (input_size self) (debug_output self))
       (\<lambda>(proto', caffemodel').
     and_then (lift (py_format ''dnnc_{}'' [mode self] [])) (\<lambda>dnnc_name.
     and_then (run_dnnc tc cn proto' caffemodel' (os_path_join rd dnnc_name)
                 (dcf self) (mode self) (debug_output self)) (\<lambda>_.
     succeed ())))"
  have eq: "compile tc self cn cfg rd w = and_then ?m ?k ?w1"
    using assms(1,2)
    by (simp add: compile_def py_format_cuda and_then_def lift_def utils_makedir_def)
  have "\<And>x. appends (?k x)"
    by (auto intro!: appends_and_then simp: split_def)
  from and_then_trace [of "?k" "?m" "?w1", OF this] obtain es where
    1: "trace (snd (and_then ?m ?k ?w1)) = trace (snd (?m ?w1)) @ es"
    by blast
  from run_pytorch_to_caffe_trace [OF assms(3), of tc "PyStr cn" model "?ptc" "debug_output self" "?w1"]
  obtain es' where
    2: "trace (snd (?m ?w1)) =
          trace ?w1 @ [TransNet (PyStr cn) [1, 3, input_size self, input_size self] model] @ es'"
    by blast
  from eq 1 2 show ?thesis
    by simp
qed

theorem compile_calls_converter_witness:
  "init_search_space tc_example () = Inr () \<and>
   init_final_model tc_example () () (''cuda:'' @ py_str_int (gpu self_example)) = Inr (PyObj ''Net'') \<and>
   0 \<le> input_size self_example \<and>
   (\<exists>rest. trace (snd (compile tc_example self_example ''net'' () ''out'' world_example)) =
           trace world_example @ [Makedir (os_path_join ''out'' ''pytorch_to_caffe''),
              TransNet (PyStr ''net'') [1, 3, input_size self_example, input_size self_example]
                (PyObj ''Net'')] @ rest)"
proof -
  have 1: "init_search_space tc_example () = Inr ()"
    by (simp add: tc_example_def)
  have 2: "init_final_model tc_example () () (''cuda:'' @ py_str_int (gpu self_example)) =
      Inr (PyObj ''Net'')"
    by (simp add: tc_example_def)
  have 3: "0 \<le> input_size self_example"
    by (simp add: self_example_def)
  from compile_calls_converter_with_name_as_model [OF 1 2 3, of "''net''" "''out''" world_example] 1 2 3
  show ?thesis by simp
qed

subsection \<open>The command lines\<close>



subsection \<open>The fixed input prototxt\<close>














section \<open>Properties of the plugin\<close>

subsection \<open>Registration and \<^verbatim>\<open>weights_init\<close>\<close>

lemma register_all_fresh:
  "distinct (map fst calls) \<Longrightarrow> set (map fst reg) \<inter> set (map fst calls) = {} \<Longrightarrow>
     register_all calls reg = Inr (reg @ calls)"
proof (induction calls arbitrary: reg)
  case Nil
  show ?case by simp
next
  case (Cons call calls)
  obtain name func where call: "call = (name, func)"
    by (cases call)
  from Cons.prems call have fresh: "name \<notin> set (map fst reg)"
    by auto
  from Cons.prems call have "distinct (map fst calls)"
    and "set (map fst (reg @ [(name, func)])) \<inter> set (map fst calls) = {}"
    by auto
  from Cons.IH [OF this] fresh call show ?case
    by (simp add: register_primitive_def)
qed

lemma plugin_registration_names:
  "map fst plugin_registrations =
     map (\<lambda>i. ''Mobileblock_'' @ py_str_int (int i)) [0..<9] @
     map (\<lambda>i. ''Resblock_'' @ py_str_int (int i)) [0..<9] @
     map (\<lambda>i. ''VGGblock_'' @ py_str_int (int i)) [0..<13]"
  by code_simp

lemma plugin_registration_distinct: "distinct (map fst plugin_registrations)"
  by (simp add: plugin_registrations_def)

text \<open>
  Claim C7. Importing the plugin registers 31 primitives, \<^verbatim>\<open>Mobileblock_0\<close> to
  \<^verbatim>\<open>Mobileblock_8\<close>, \<^verbatim>\<open>Resblock_0\<close> to \<^verbatim>\<open>Resblock_8\<close> and \<^verbatim>\<open>VGGblock_0\<close> to
  \<^verbatim>\<open>VGGblock_12\<close>, all under different names; and \<^verbatim>\<open>FBNetPlugin\<close> has
  \<^verbatim>\<open>objective_list = [LatencyObjective]\<close> and
  \<^verbatim>\<open>weights_manager_list = [WeightInitDiffSuperNet]\<close>.
\<close>

theorem plugin_registers_31_primitives:
  "map fst plugin_registrations =
     map (\<lambda>i. ''Mobileblock_'' @ py_str_int (int i)) [0..<9] @
     map (\<lambda>i. ''Resblock_'' @ py_str_int (int i)) [0..<9] @
     map (\<lambda>i. ''VGGblock_'' @ py_str_int (int i)) [0..<13]
   \<and> length plugin_registrations = 31
   \<and> distinct (map fst plugin_registrations)
   \<and> (set (map fst reg) \<inter> set (map fst plugin_registrations) = {} \<longrightarrow>
        import_plugin reg = Inr (reg @ plugin_registrations))
   \<and> objective_list FBNetPlugin = [LatencyObjective]
   \<and> weights_manager_list FBNetPlugin = [WeightInitDiffSuperNet]"
proof -
  have "length plugin_registrations = 31"
    by (simp add: plugin_registrations_def)
  moreover have "set (map fst reg) \<inter> set (map fst plugin_registrations) = {} \<longrightarrow>
        import_plugin reg = Inr (reg @ plugin_registrations)"
    unfolding import_plugin_def
    using register_all_fresh [OF plugin_registration_distinct] by blast
  ultimately show ?thesis
    using plugin_registration_names plugin_registration_distinct
    by (simp add: FBNetPlugin_def)
qed

theorem plugin_registers_31_primitives_witness:
  "set (map fst ([] :: registry)) \<inter> set (map fst plugin_registrations) = {}
   \<and> import_plugin [] = Inr ([] @ plugin_registrations)
   \<and> length plugin_registrations = 31
   \<and> objective_list FBNetPlugin = [LatencyObjective]"
  using plugin_registers_31_primitives [of "[]"]
  by simp

text \<open>
  Claim C10 says that the depth of self-recursion of \<^verbatim>\<open>weights_init\<close> is at most
  \<^verbatim>\<open>max_depth + 1\<close>. Called on an empty container module with \<^verbatim>\<open>max_depth = 0\<close> the
  function nests three calls deep: the recursive calls do not pass \<^verbatim>\<open>max_depth\<close> on.
\<close>

theorem weights_init_depth_ignores_max_depth:
  "weights_init (Mod (Module [])) 0 0 = (Inr [], 3)"
  by (simp add: weights_init.simps)

text \<open>
  What does hold: the function is total (its termination is proved with its definition),
  and however \<^verbatim>\<open>max_depth\<close> is chosen, a call at \<^verbatim>\<open>deepth\<close> 0 nests at most three
  calls deep, which is \<^verbatim>\<open>max_depth + 1\<close> for the default.
\<close>

lemma weights_init_depth_bound:
  "snd (weights_init x d md) \<le> (if d > md then 0 else 1 + nat (2 - d))"
  "snd (weights_init_loop ms d) \<le> 1 + nat (3 - d)"
proof (induction x d md and ms d rule: weights_init_weights_init_loop.induct)
  case (1 m deepth max_depth)
  show ?case
  proof (cases "deepth > max_depth")
    case True
    then show ?thesis by (simp add: weights_init.simps(1))
  next
    case False
    show ?thesis
    proof (cases m)
      case (NonModule cls)
      with False show ?thesis by (simp add: weights_init.simps(1))
    next
      case (Mod mo)
      show ?thesis
      proof (cases mo)
        case (Module cs)
        from "1.IH" [OF False Mod Module]
        have "snd (weights_init_loop (modules (Module cs)) (deepth + 1)) \<le> 1 + nat (3 - (deepth + 1))" .
        with False Mod Module show ?thesis
          by (simp add: weights_init.simps(1))
      qed (use False Mod in \<open>simp_all add: weights_init.simps(1)\<close>)
    qed
  qed
next
  case (2 deepth)
  show ?case by (simp add: weights_init.simps)
next
  case (3 m1 ms deepth)
  obtain r k where a: "weights_init (Mod m1) deepth 2 = (r, k)"
    by (cases "weights_init (Mod m1) deepth 2")
  from "3.IH"(1) a have k: "k \<le> (if deepth > 2 then 0 else 1 + nat (2 - deepth))"
    by simp
  then have k': "Suc k \<le> 1 + nat (3 - deepth)"
    by (auto split: if_splits)
  show ?case
  proof (cases r)
    case (Inl e)
    with a k' show ?thesis by (simp add: weights_init.simps)
  next
    case (Inr acts)
    obtain r' k2 where b: "weights_init_loop ms deepth = (r', k2)"
      by (cases "weights_init_loop ms deepth")
    from "3.IH"(2) [OF a [symmetric] Inr] b have "k2 \<le> 1 + nat (3 - deepth)"
      by simp
    with a b Inr k' show ?thesis
      by (cases r') (simp_all add: weights_init.simps)
  qed
qed

lemma weights_init_default_depth: "snd (weights_init x 0 2) \<le> 3"
  using weights_init_depth_bound(1) [of x 0 2] by simp

subsection \<open>The learning-rate schedule\<close>








subsection \<open>Reward and loss\<close>

lemma py_index_first:
  "x \<in> set ys \<Longrightarrow> py_index ys x = Inr (first_index ys x)"
  by (induction ys) (auto simp: first_index_def)

lemma layer_latency_ok:
  assumes "layer_ok self ss gs i"
  shows "layer_latency self ss i (gs ! i) = Inr (chosen_latency self ss gs i)"
proof (cases "gs ! i")
  case (Concat nodes)
  with assms show ?thesis by (simp add: layer_ok_def)
next
  case (Cell conns)
  with assms have c: "conns \<noteq> []" "hd conns \<noteq> []" "i < length (cell_layout ss)"
    "cell_layout ss ! i < length (cell_shared_primitives ss)"
    "hd (hd conns) \<in> set (cell_shared_primitives ss ! (cell_layout ss ! i))"
    "i < length (latency_lut self)"
    "first_index (cell_shared_primitives ss ! (cell_layout ss ! i)) (hd (hd conns))
       < length (latency_lut self ! i)"
    by (simp_all add: layer_ok_def)
  from c(1,2) have "geno_prim (Cell conns) = Inr (hd (hd conns))"
    by (simp add: py_getitem_def hd_conv_nth)
  with Cell c py_index_first [OF c(5)] show ?thesis
    by (simp add: layer_latency_def py_getitem_def chosen_latency_def chosen_prim_def)
qed

lemma reward_loop_sum:
  assumes "\<And>j. j < length xs \<Longrightarrow> layer_latency self ss (i + j) (xs ! j) = Inr (f (i + j))"
  shows "reward_loop self ss i xs acc = Inr (acc + (\<Sum>k = i..<i + length xs. f k))"
  using assms
proof (induction xs arbitrary: i acc)
  case Nil
  show ?case by simp
next
  case (Cons x xs)
  from Cons.prems [of 0] have 0: "layer_latency self ss i x = Inr (f i)"
    by simp
  have "\<And>j. j < length xs \<Longrightarrow> layer_latency self ss (Suc i + j) (xs ! j) = Inr (f (Suc i + j))"
    using Cons.prems [of "Suc j" for j] by simp
  from Cons.IH [OF this, of "acc + f i"] 0 show ?case
    by (simp add: sum.atLeast_Suc_lessThan add.assoc)
qed

lemma reward_loop_take:
  assumes "list_all (layer_ok self ss gs) [0..<n]" and "n \<le> length gs"
  shows "reward_loop self ss 0 (take n gs) 0 = Inr (\<Sum>i<n. chosen_latency self ss gs i)"
proof -
  have "\<And>j. j < length (take n gs) \<Longrightarrow>
      layer_latency self ss (0 + j) (take n gs ! j) = Inr (chosen_latency self ss gs (0 + j))"
    using assms by (simp add: list_all_iff layer_latency_ok)
  from reward_loop_sum [of "take n gs" self ss 0 "chosen_latency self ss gs" 0, OF this] assms(2)
  show ?thesis
    by (simp add: atLeast0LessThan min_def)
qed

lemma foldl_max: "foldl max x xs = Max (set (x # xs))"
  unfolding Max.set_eq_fold by (simp add: foldl_conv_fold max.commute)

lemma foldl_min: "foldl min x xs = Min (set (x # xs))"
  unfolding Min.set_eq_fold by (simp add: foldl_conv_fold min.commute)

lemma sum_over_py_max:
  "sum_over py_max lut = Inr hi \<Longrightarrow> hi = (\<Sum>row\<leftarrow>lut. Max (set row)) \<and> [] \<notin> set lut"
proof (induction lut arbitrary: hi)
  case Nil
  then show ?case by simp
next
  case (Cons row lut)
  then show ?case
    by (cases row) (auto simp: foldl_max split: sum.splits)
qed

lemma sum_over_py_min:
  "sum_over py_min lut = Inr lo \<Longrightarrow> lo = (\<Sum>row\<leftarrow>lut. Min (set row))"
proof (induction lut arbitrary: lo)
  case Nil
  then show ?case by simp
next
  case (Cons row lut)
  then show ?case
    by (cases row) (auto simp: foldl_min split: sum.splits)
qed

text \<open>
  Claim C5. \<^verbatim>\<open>get_reward\<close> returns the top-1 accuracy divided by 100 when \<^verbatim>\<open>lamb\<close> is
  \<^verbatim>\<open>None\<close>. Otherwise, when the look-ups are in range and neither latency is zero, it
  returns \<^verbatim>\<open>acc + lamb * (1 / latency_penalty - 1 / _max_lat)\<close>, where
  \<^verbatim>\<open>latency_penalty\<close> sums the latency of the chosen primitive over the first
  \<^verbatim>\<open>len(genotypes) // 2\<close> genotypes and \<^verbatim>\<open>_max_lat\<close> is the sum of the row maxima that
  the constructor computes.
\<close>

theorem get_reward_value:
  "(lamb self = None \<longrightarrow> get_reward self ss top1 gs = Inr (top1 / 100))
   \<and> (lamb self = Some l \<and> list_all (layer_ok self ss gs) [0..<length gs div 2]
        \<and> (\<Sum>i<length gs div 2. chosen_latency self ss gs i) \<noteq> 0 \<and> max_lat self \<noteq> 0 \<longrightarrow>
      get_reward self ss top1 gs =
        Inr (top1 / 100 +
             l * (1 / (\<Sum>i<length gs div 2. chosen_latency self ss gs i) - 1 / max_lat self)))
   \<and> (LatencyObjective_init a b lam (Some lut) = Inr obj \<longrightarrow>
        max_lat obj = (\<Sum>row\<leftarrow>lut. Max (set row)) \<and> min_lat obj = (\<Sum>row\<leftarrow>lut. Min (set row))
        \<and> latency_lut obj = lut \<and> lamb obj = lam \<and> alpha obj = a \<and> beta obj = b)"
proof -
  have none: "lamb self = None \<longrightarrow> get_reward self ss top1 gs = Inr (top1 / 100)"
    by (simp add: get_reward_def)
  have some: "lamb self = Some l \<and> list_all (layer_ok self ss gs) [0..<length gs div 2]
        \<and> (\<Sum>i<length gs div 2. chosen_latency self ss gs i) \<noteq> 0 \<and> max_lat self \<noteq> 0 \<longrightarrow>
      get_reward self ss top1 gs =
        Inr (top1 / 100 +
             l * (1 / (\<Sum>i<length gs div 2. chosen_latency self ss gs i) - 1 / max_lat self))"
  proof
    assume a: "lamb self = Some l \<and> list_all (layer_ok self ss gs) [0..<length gs div 2]
        \<and> (\<Sum>i<length gs div 2. chosen_latency self ss gs i) \<noteq> 0 \<and> max_lat self \<noteq> 0"
    then have "reward_loop self ss 0 (take (length gs div 2) gs) 0 =
        Inr (\<Sum>i<length gs div 2. chosen_latency self ss gs i)"
      by (intro reward_loop_take) simp_all
    with a show "get_reward self ss top1 gs =
        Inr (top1 / 100 +
             l * (1 / (\<Sum>i<length gs div 2. chosen_latency self ss gs i) - 1 / max_lat self))"
      by (simp add: get_reward_def Let_def)
  qed
  have init: "LatencyObjective_init a b lam (Some lut) = Inr obj \<longrightarrow>
        max_lat obj = (\<Sum>row\<leftarrow>lut. Max (set row)) \<and> min_lat obj = (\<Sum>row\<leftarrow>lut. Min (set row))
        \<and> latency_lut obj = lut \<and> lamb obj = lam \<and> alpha obj = a \<and> beta obj = b"
  proof
    assume "LatencyObjective_init a b lam (Some lut) = Inr obj"
    then obtain lo hi where lo: "sum_over py_min lut = Inr lo"
      and hi: "sum_over py_max lut = Inr hi"
      and obj: "obj = \<lparr>alpha = a, beta = b, lamb = lam, latency_lut = lut, min_lat = lo,
                        max_lat = hi\<rparr>"
      by (auto simp: LatencyObjective_init_def split: sum.splits)
    from sum_over_py_max [OF hi] sum_over_py_min [OF lo] obj
    show "max_lat obj = (\<Sum>row\<leftarrow>lut. Max (set row)) \<and> min_lat obj = (\<Sum>row\<leftarrow>lut. Min (set row))
        \<and> latency_lut obj = lut \<and> lamb obj = lam \<and> alpha obj = a \<and> beta obj = b"
      by simp
  qed
  from none some init show ?thesis
    by blast
qed

theorem get_reward_value_witness:
  "lamb (objective_example\<lparr>lamb := None\<rparr>) = None
   \<and> get_reward (objective_example\<lparr>lamb := None\<rparr>) search_space_example 75 genotypes_example =
       Inr (75 / 100)
   \<and> (lamb objective_example = Some 1
        \<and> list_all (layer_ok objective_example search_space_example genotypes_example)
             [0..<length genotypes_example div 2]
        \<and> (\<Sum>i<length genotypes_example div 2.
              chosen_latency objective_example search_space_example genotypes_example i) = 5
        \<and> max_lat objective_example = 6)
   \<and> get_reward objective_example search_space_example 75 genotypes_example =
       Inr (75 / 100 + 1 * (1 / 5 - 1 / 6))
   \<and> LatencyObjective_init (1 / 5) 1 (Some 1) (Some [[1, 2], [3, 4]]) = Inr objective_example"
proof -
  have n: "length genotypes_example div 2 = 2"
    by (simp add: genotypes_example_def)
  have two: "[0..<2] = [0, Suc 0]"
    by (simp add: upt_rec)
  have lt2: "{..<2::nat} = {0, Suc 0}"
    by auto
  have ok: "list_all (layer_ok objective_example search_space_example genotypes_example)
             [0..<length genotypes_example div 2]"
    by (simp add: n two layer_ok_def genotypes_example_def search_space_example_def
        objective_example_def first_index_def)
  have pen: "(\<Sum>i<length genotypes_example div 2.
              chosen_latency objective_example search_space_example genotypes_example i) = 5"
    by (simp add: n lt2 chosen_latency_def chosen_prim_def genotypes_example_def
        search_space_example_def objective_example_def first_index_def)
  have l: "lamb objective_example = Some 1" and m: "max_lat objective_example = 6"
    by (simp_all add: objective_example_def)
  have i: "LatencyObjective_init (1 / 5) 1 (Some 1) (Some [[1, 2], [3, 4]]) = Inr objective_example"
    by (simp add: LatencyObjective_init_def objective_example_def)
  from get_reward_value [of "objective_example\<lparr>lamb := None\<rparr>" search_space_example 75
      genotypes_example]
  have a: "get_reward (objective_example\<lparr>lamb := None\<rparr>) search_space_example 75
      genotypes_example = Inr (75 / 100)"
    by simp
  from get_reward_value [of objective_example search_space_example 75 genotypes_example 1]
    ok pen l m
  have b: "get_reward objective_example search_space_example 75 genotypes_example =
       Inr (75 / 100 + 1 * (1 / 5 - 1 / 6))"
    by simp
  from a b ok pen l m i show ?thesis
    by simp
qed

lemma sum_list_zip_inner:
  "length a = length b \<Longrightarrow>
     sum_list (map (\<lambda>(x, y). x * y) (zip a b)) = inner_product a b"
proof (induction a b rule: list_induct2)
  case Nil
  show ?case by (simp add: inner_product_def)
next
  case (Cons x xs y ys)
  then show ?case
    by (simp add: inner_product_def sum.lessThan_Suc_shift del: sum.lessThan_Suc)
qed

lemma mul_sum_inner: "length a = length b \<Longrightarrow> mul_sum a b = Inr (inner_product a b)"
  by (simp add: mul_sum_def sum_list_zip_inner)

lemma mul_sum_rows_inner:
  "list_all (\<lambda>r. length r = length b) rows \<Longrightarrow>
     mul_sum_rows rows b = Inr (\<Sum>r\<leftarrow>rows. inner_product r b)"
  by (induction rows) (simp_all add: mul_sum_inner)

lemma tensor_latency_ok:
  "shape_ok t row \<Longrightarrow> tensor_latency t row = Some (Inr (spec_latency t row))"
  by (cases t) (simp_all add: mul_sum_inner mul_sum_rows_inner)

lemma loss_loop_sum:
  assumes "\<And>j. j < length xs \<Longrightarrow>
      i + j < length lut \<and> tensor_latency (xs ! j) (lut ! (i + j)) = Some (Inr (f (i + j)))"
  shows "loss_loop lut i xs acc = Some (Inr (acc + (\<Sum>k = i..<i + length xs. f k)))"
  using assms
proof (induction xs arbitrary: i acc)
  case Nil
  show ?case by simp
next
  case (Cons x xs)
  from Cons.prems [of 0] have 0: "i < length lut" "tensor_latency x (lut ! i) = Some (Inr (f i))"
    by simp_all
  have "\<And>j. j < length xs \<Longrightarrow> Suc i + j < length lut \<and>
      tensor_latency (xs ! j) (lut ! (Suc i + j)) = Some (Inr (f (Suc i + j)))"
    using Cons.prems [of "Suc j" for j] by simp
  from Cons.IH [OF this, of "acc + f i"] 0 show ?case
    by (simp add: sum.atLeast_Suc_lessThan add.assoc py_getitem_def)
qed

text \<open>
  Claim C4. Without the controller regularization \<^verbatim>\<open>get_loss\<close> returns the
  cross-entropy loss. With it, for at least one layer, sizes that agree and a positive
  total latency \<open>L\<close>, it returns the cross-entropy loss times \<^verbatim>\<open>alpha\<close> times \<open>L\<close> to
  the power \<^verbatim>\<open>beta\<close>, where \<open>L\<close> sums over the layers the inner product of
  \<^verbatim>\<open>arch[0]\<close> with the layer's row of the look-up table (divided by
  \<^verbatim>\<open>arch[0].shape[0]\<close> for a two-dimensional \<^verbatim>\<open>arch[0]\<close>). With no layer at all the
  call raises \<^verbatim>\<open>AttributeError\<close>.
\<close>

theorem get_loss_value:
  "get_loss self ce archs False e = Some (Inr ce)
   \<and> (archs \<noteq> [] \<and> length archs \<le> length (latency_lut self)
        \<and> list_all (\<lambda>i. shape_ok (archs ! i) (latency_lut self ! i)) [0..<length archs]
        \<and> 0 < (\<Sum>i<length archs. spec_latency (archs ! i) (latency_lut self ! i)) \<longrightarrow>
      get_loss self ce archs True e =
        Some (Inr (ce * alpha self *
                   (\<Sum>i<length archs. spec_latency (archs ! i) (latency_lut self ! i))
                     powr beta self)))
   \<and> (archs = [] \<longrightarrow>
        get_loss self ce archs True e =
          Some (Inl (AttributeError ''float object has no attribute pow'')))"
proof (intro conjI impI)
  show "get_loss self ce archs False e = Some (Inr ce)"
    by (simp add: get_loss_def)
next
  assume a: "archs \<noteq> [] \<and> length archs \<le> length (latency_lut self)
        \<and> list_all (\<lambda>i. shape_ok (archs ! i) (latency_lut self ! i)) [0..<length archs]
        \<and> 0 < (\<Sum>i<length archs. spec_latency (archs ! i) (latency_lut self ! i))"
  let ?f = "\<lambda>i. spec_latency (archs ! i) (latency_lut self ! i)"
  have "\<And>j. j < length archs \<Longrightarrow> 0 + j < length (latency_lut self) \<and>
      tensor_latency (archs ! j) (latency_lut self ! (0 + j)) = Some (Inr (?f (0 + j)))"
    using a by (simp add: list_all_iff tensor_latency_ok)
  from loss_loop_sum [of archs 0 "latency_lut self" ?f 0, OF this]
  have "loss_loop (latency_lut self) 0 archs 0 = Some (Inr (\<Sum>i<length archs. ?f i))"
    by (simp add: atLeast0LessThan)
  with a show "get_loss self ce archs True e =
        Some (Inr (ce * alpha self * (\<Sum>i<length archs. ?f i) powr beta self))"
    by (simp add: get_loss_def tensor_pow_def)
next
  assume "archs = []"
  then show "get_loss self ce archs True e =
          Some (Inl (AttributeError ''float object has no attribute pow''))"
    by (simp add: get_loss_def)
qed

theorem get_loss_value_witness:
  "(archs_example \<noteq> [] \<and> length archs_example \<le> length (latency_lut objective_example)
      \<and> list_all (\<lambda>i. shape_ok (archs_example ! i) (latency_lut objective_example ! i))
           [0..<length archs_example]
      \<and> (\<Sum>i<length archs_example.
            spec_latency (archs_example ! i) (latency_lut objective_example ! i)) = 5)
   \<and> get_loss objective_example 2 archs_example True True = Some (Inr (2 * (1 / 5) * 5))
   \<and> get_loss objective_example 2 archs_example False True = Some (Inr 2)"
proof -
  have n: "length archs_example = 2"
    by (simp add: archs_example_def)
  have two: "[0..<2] = [0, Suc 0]"
    by (simp add: upt_rec)
  have lt2: "{..<2::nat} = {0, Suc 0}"
    by auto
  have ne: "archs_example \<noteq> []" and len: "length archs_example \<le> length (latency_lut objective_example)"
    by (simp_all add: archs_example_def objective_example_def)
  have ok: "list_all (\<lambda>i. shape_ok (archs_example ! i) (latency_lut objective_example ! i))
           [0..<length archs_example]"
    by (simp add: n two archs_example_def objective_example_def)
  have L: "(\<Sum>i<length archs_example.
            spec_latency (archs_example ! i) (latency_lut objective_example ! i)) = 5"
    by (simp add: n lt2 archs_example_def objective_example_def inner_product_def)
  from get_loss_value [of objective_example 2 archs_example True] ne len ok L
  have a: "get_loss objective_example 2 archs_example True True = Some (Inr (2 * (1 / 5) * 5))"
    by (simp add: objective_example_def)
  from get_loss_value [of objective_example 2 archs_example True]
  have b: "get_loss objective_example 2 archs_example False True = Some (Inr 2)"
    by simp
  from ne len ok L a b show ?thesis
    by simp
qed

end
